theory Spec2Isabelle
  imports Main "HOL-Library.Word" "HOL-Library.Sublist"
begin

section \<open>JavaScript strings\<close>

text \<open>
  A JavaScript string is a sequence of 16-bit UTF-16 code units. The migration script
  \<^verbatim>\<open>apply-migration.js\<close> only uses the string built-ins \<^verbatim>\<open>split\<close>, \<^verbatim>\<open>trim\<close>,
  \<^verbatim>\<open>startsWith\<close>, \<^verbatim>\<open>length\<close>, strict inequality and truthiness; each is given
  here with its ECMAScript meaning.
\<close>

type_synonym code_unit = "16 word"
type_synonym js_string = "code_unit list"

definition asc :: "string \<Rightarrow> js_string" where
  \<comment> \<open>An ASCII literal of the source, as code units.\<close>
  "asc s = map of_char s"

definition js_whitespace :: "code_unit \<Rightarrow> bool" where
  \<comment> \<open>ECMAScript WhiteSpace and LineTerminator, the code units \<^verbatim>\<open>trim\<close> strips:
      TAB, LF, VT, FF, CR, SP, NBSP, U+1680, U+2000..U+200A, LS, PS, U+202F, U+205F,
      U+3000 and the byte order mark U+FEFF.\<close>
  "js_whitespace c \<longleftrightarrow>
     c \<in> set [0x0009, 0x000A, 0x000B, 0x000C, 0x000D, 0x0020, 0x00A0, 0x1680,
              0x2000, 0x2001, 0x2002, 0x2003, 0x2004, 0x2005, 0x2006, 0x2007,
              0x2008, 0x2009, 0x200A, 0x2028, 0x2029, 0x202F, 0x205F, 0x3000, 0xFEFF]"

definition trim :: "js_string \<Rightarrow> js_string" where
  \<comment> \<open>\<^verbatim>\<open>String.prototype.trim\<close>: white space removed from both ends.\<close>
  "trim s = rev (dropWhile js_whitespace (rev (dropWhile js_whitespace s)))"

fun split_on :: "code_unit \<Rightarrow> js_string \<Rightarrow> js_string list" where
  \<comment> \<open>\<^verbatim>\<open>String.prototype.split\<close> with a one-unit separator and no limit: the pieces
      between the separators, so one piece more than there are separators; the empty
      string gives the single empty piece.\<close>
  "split_on sep [] = [[]]"
| "split_on sep (c # cs) =
     (if c = sep then [] # split_on sep cs
      else (case split_on sep cs of
              [] \<Rightarrow> [[c]]
            | piece # pieces \<Rightarrow> (c # piece) # pieces))"

definition starts_with :: "js_string \<Rightarrow> js_string \<Rightarrow> bool" where
  \<comment> \<open>\<^verbatim>\<open>s.startsWith(p)\<close>\<close>
  "starts_with s p \<longleftrightarrow> take (length p) s = p"

definition js_truthy :: "js_string \<Rightarrow> bool" where
  \<comment> \<open>A string is truthy when it is not the empty string.\<close>
  "js_truthy s \<longleftrightarrow> s \<noteq> []"

section \<open>The statement splitter\<close>

text \<open>
  Lines 43 to 46 of the script:
  \<^verbatim>\<open>
  const statements = migrationSQL
    .split(';')
    .map(stmt => stmt.trim())
    .filter(stmt => stmt.length > 0 && !stmt.startsWith('--') && stmt !== '\\n');
  \<close>
  The last literal is written with an escaped backslash in the source, so it is the
  two-unit string backslash, \<^verbatim>\<open>n\<close> and not a line feed.
\<close>

definition semicolon :: code_unit where
  "semicolon = 0x3B"

definition comment_marker :: js_string where
  "comment_marker = [0x2D, 0x2D]"

definition escaped_newline :: js_string where
  "escaped_newline = [0x5C, 0x6E]"

definition keep_stmt :: "js_string \<Rightarrow> bool" where
  "keep_stmt stmt \<longleftrightarrow>
     length stmt > 0 \<and> \<not> starts_with stmt comment_marker \<and> stmt \<noteq> escaped_newline"

definition split_statements :: "js_string \<Rightarrow> js_string list" where
  "split_statements migrationSQL =
     filter keep_stmt (map trim (split_on semicolon migrationSQL))"

section \<open>The environment of a run\<close>

text \<open>
  The script reads two environment variables, one file, and talks to the remote
  client through \<^verbatim>\<open>supabase.rpc('exec_sql', { sql })\<close> and through the read-only
  probe \<^verbatim>\<open>supabase.from('').select().limit(0)\<close>. An awaited call either yields an
  object whose \<^verbatim>\<open>error\<close> field is falsy, yields one whose \<^verbatim>\<open>error\<close> field is
  truthy, or throws. The remote side may answer differently from call to call, so its
  answer is a function of the statements submitted before.
\<close>

datatype reply = NoError | HasError | Raises js_string

record world =
  env_url :: "js_string option"
  env_key :: "js_string option"
  script_dir :: js_string
  path_join :: "js_string \<Rightarrow> js_string \<Rightarrow> js_string"
  read_file :: "js_string \<Rightarrow> js_string + js_string"
  rpc_exec_sql :: "js_string list \<Rightarrow> js_string \<Rightarrow> reply"
  probe_select :: "js_string list \<Rightarrow> reply"

text \<open>
  \<^term>\<open>env_url\<close> and \<^term>\<open>env_key\<close> are \<^verbatim>\<open>process.env.NEXT_PUBLIC_SUPABASE_API\<close> and
  \<^verbatim>\<open>process.env.NEXT_PUBLIC_PUBLIC_API_KEY\<close> (\<^term>\<open>None\<close> is \<^verbatim>\<open>undefined\<close>);
  \<^term>\<open>script_dir\<close> is \<^verbatim>\<open>__dirname\<close>; \<^term>\<open>path_join\<close> is Node's \<^verbatim>\<open>path.join\<close>;
  \<^term>\<open>read_file\<close> is \<^verbatim>\<open>readFileSync(path, 'utf8')\<close>, \<^term>\<open>Inl\<close> carrying the message of
  the error it throws.
\<close>

datatype event =
    ConsoleLog js_string
  | ConsoleError js_string
  | CreateClient "js_string option" "js_string option"
  | ReadFileSync js_string
  | RpcExecSql js_string
  | ProbeSelect
  | ProcessExit nat

datatype run_result = Completed | PartialFallback | ManualFallback | Failed | MissingConfiguration

record run =
  events :: "event list"
  outcome :: run_result

definition js_not :: "js_string option \<Rightarrow> bool" where
  \<comment> \<open>\<^verbatim>\<open>!v\<close> for a value that is \<^verbatim>\<open>undefined\<close> or a string.\<close>
  "js_not v \<longleftrightarrow> (case v of None \<Rightarrow> True | Some s \<Rightarrow> \<not> js_truthy s)"

fun dec :: "nat \<Rightarrow> js_string" where
  \<comment> \<open>A non-negative integer in a template literal: its decimal digits.\<close>
  "dec n = (if n < 10 then [of_nat (48 + n)] else dec (n div 10) @ [of_nat (48 + n mod 10)])"

declare dec.simps [simp del]

fun submitted :: "event list \<Rightarrow> js_string list" where
  \<comment> \<open>The statements handed to \<^verbatim>\<open>exec_sql\<close>, in order.\<close>
  "submitted [] = []"
| "submitted (RpcExecSql sql # evs) = sql # submitted evs"
| "submitted (_ # evs) = submitted evs"

fun exit_status :: "event list \<Rightarrow> nat" where
  \<comment> \<open>The status of the first \<^verbatim>\<open>process.exit\<close>; a process that just runs out of
      work ends with status 0.\<close>
  "exit_status [] = 0"
| "exit_status (ProcessExit n # evs) = n"
| "exit_status (_ # evs) = exit_status evs"

fun printed :: "event list \<Rightarrow> js_string list" where
  \<comment> \<open>The lines written to the console by \<^verbatim>\<open>console.log\<close> and \<^verbatim>\<open>console.error\<close>,
      in order.\<close>
  "printed [] = []"
| "printed (ConsoleLog line # evs) = line # printed evs"
| "printed (ConsoleError line # evs) = line # printed evs"
| "printed (_ # evs) = printed evs"

subsection \<open>Console messages\<close>

definition migration_file_name :: js_string where
  "migration_file_name = asc ''001_create_scheduler_tables.sql''"

definition msg_missing_env :: js_string where
  "msg_missing_env = [0x274C] @ asc '' Missing Supabase environment variables''"

definition msg_please_ensure :: js_string where
  "msg_please_ensure = asc (''Please ensure NEXT_PUBLIC_SUPABASE_API and '' @
     ''NEXT_PUBLIC_PUBLIC_API_KEY are set in your .env file'')"

definition msg_starting :: js_string where
  "msg_starting = [0xD83D, 0xDE80] @ asc '' Starting Enrollmate scheduler migration...''"

definition msg_loaded :: js_string where
  "msg_loaded = [0xD83D, 0xDCC4] @ asc '' Migration file loaded successfully''"

definition msg_executing_all :: "nat \<Rightarrow> js_string" where
  "msg_executing_all n = [0xD83D, 0xDD04] @ asc '' Executing '' @ dec n @ asc '' SQL statements...''"

definition msg_executing :: "nat \<Rightarrow> nat \<Rightarrow> js_string" where
  "msg_executing i n =
     [0x26A1] @ asc '' Executing statement '' @ dec (i + 1) @ asc ''/'' @ dec n @ asc ''...''"

definition msg_rpc_unavailable :: js_string where
  "msg_rpc_unavailable =
     [0x26A0, 0xFE0F] @ asc ''  RPC method not available, trying direct execution...''"

definition msg_attempting :: js_string where
  "msg_attempting = [0xD83D, 0xDD04] @ asc '' Attempting direct SQL execution...''"

definition manual_guidance :: "event list" where
  \<comment> \<open>Lines 71 to 78.\<close>
  "manual_guidance =
     [ConsoleLog ([0x26A0, 0xFE0F] @ asc ''  Direct SQL execution not available with anon key''),
      ConsoleLog ([0xD83D, 0xDCCB] @
        asc '' Please run the following SQL manually in your Supabase SQL Editor:''),
      ConsoleLog [],
      ConsoleLog ([0xD83D, 0xDCCE] @
        asc '' --- Copy the contents of migrations/001_create_scheduler_tables.sql ---''),
      ConsoleLog ([0xD83C, 0xDF10] @
        asc '' Go to: https://supabase.com/dashboard/project/hwgzlwocdofoticqvwqg/sql''),
      ConsoleLog ([0xD83D, 0xDCC4] @ asc '' Paste the SQL and run it''),
      ConsoleLog [],
      ConsoleLog ([0x2705] @ asc ('' Migration file created successfully at: '' @
        ''migrations/001_create_scheduler_tables.sql''))]"

definition completed_report :: "event list" where
  \<comment> \<open>Lines 82 to 91.\<close>
  "completed_report =
     [ConsoleLog ([0x2705] @ asc '' Migration completed successfully!''),
      ConsoleLog [],
      ConsoleLog ([0xD83C, 0xDF89] @ asc '' Your Enrollmate scheduler database is ready!''),
      ConsoleLog ([0xD83D, 0xDCDA] @ asc '' Tables created:''),
      ConsoleLog (asc ''  - course_sections (with sample data)''),
      ConsoleLog (asc ''  - user_schedules''),
      ConsoleLog (asc ''  - schedule_preferences''),
      ConsoleLog [],
      ConsoleLog ([0xD83D, 0xDD12] @ asc '' Row Level Security (RLS) policies applied''),
      ConsoleLog ([0xD83D, 0xDCCA] @ asc '' Indexes created for optimal performance'')]"

definition catch_handler :: "js_string \<Rightarrow> event list" where
  \<comment> \<open>Lines 93 to 100, for a caught error with the given \<^verbatim>\<open>message\<close>;
      \<^verbatim>\<open>console.error\<close> separates its two arguments by a space.\<close>
  "catch_handler message =
     [ConsoleError ([0x274C] @ asc '' Migration failed:'' @ asc '' '' @ message),
      ConsoleError [],
      ConsoleError ([0xD83D, 0xDCCB] @ asc '' Manual steps needed:''),
      ConsoleError (asc (''1. Go to your Supabase dashboard: '' @
        ''https://supabase.com/dashboard/project/hwgzlwocdofoticqvwqg/sql'')),
      ConsoleError (asc ''2. Copy the contents of migrations/001_create_scheduler_tables.sql''),
      ConsoleError (asc ''3. Paste and execute the SQL in the SQL Editor''),
      ProcessExit 1]"

section \<open>The migration runner\<close>

text \<open>
  The statement loop, lines 51 to 64. It returns what it did and, when an awaited call
  threw, the message of the error that leaves the loop for the \<^verbatim>\<open>catch\<close> block.
  \<^verbatim>\<open>
  for (let i = 0; i < statements.length; i++) {
    const statement = statements[i];
    if (statement.trim()) {
      console.log(...);
      const { error } = await supabase.rpc('exec_sql', { sql: statement });
      if (error) { console.log(...); break; }
    }
  }
  \<close>
\<close>

function exec_loop ::
  "(js_string list \<Rightarrow> js_string \<Rightarrow> reply) \<Rightarrow> js_string list \<Rightarrow> nat \<Rightarrow> js_string list
     \<Rightarrow> event list \<times> js_string option" where
  "exec_loop rpc statements i hist =
     (if i < length statements then
        (let statement = statements ! i in
         if js_truthy (trim statement) then
           (case rpc hist statement of
              NoError \<Rightarrow>
                (let (evs, thrown) = exec_loop rpc statements (i + 1) (hist @ [statement])
                 in (ConsoleLog (msg_executing i (length statements)) # RpcExecSql statement # evs,
                     thrown))
            | HasError \<Rightarrow>
                ([ConsoleLog (msg_executing i (length statements)), RpcExecSql statement,
                  ConsoleLog msg_rpc_unavailable], None)
            | Raises message \<Rightarrow>
                ([ConsoleLog (msg_executing i (length statements)), RpcExecSql statement],
                 Some message))
         else exec_loop rpc statements (i + 1) hist)
      else ([], None))"
  by pat_completeness auto
termination
  by (relation "measure (\<lambda>(rpc, statements, i, hist). length statements - i)") auto

declare exec_loop.simps [simp del]

definition migration_path :: "world \<Rightarrow> js_string" where
  \<comment> \<open>Line 37: \<^verbatim>\<open>join(__dirname, '001_create_scheduler_tables.sql')\<close>\<close>
  "migration_path w = path_join w (script_dir w) migration_file_name"

text \<open>
  The body of \<^verbatim>\<open>applyMigration\<close>, lines 32 to 102. Every throw inside the \<^verbatim>\<open>try\<close>
  block ends in the \<^verbatim>\<open>catch\<close> block, which calls \<^verbatim>\<open>process.exit(1)\<close>.
\<close>

definition applyMigration :: "world \<Rightarrow> run" where
  "applyMigration w =
     (let migrationPath = migration_path w;
          e0 = [ConsoleLog msg_starting, ReadFileSync migrationPath]
      in case read_file w migrationPath of
           Inl message \<Rightarrow> \<lparr>events = e0 @ catch_handler message, outcome = Failed\<rparr>
         | Inr migrationSQL \<Rightarrow>
             (let statements = split_statements migrationSQL;
                  e1 = e0 @ [ConsoleLog msg_loaded,
                             ConsoleLog (msg_executing_all (length statements))];
                  (e2, thrown) = exec_loop (rpc_exec_sql w) statements 0 []
              in case thrown of
                   Some message \<Rightarrow>
                     \<lparr>events = e1 @ e2 @ catch_handler message, outcome = Failed\<rparr>
                 | None \<Rightarrow>
                     (let e3 = e1 @ e2 @ [ConsoleLog msg_attempting, ProbeSelect]
                      in case probe_select w (submitted e2) of
                           Raises message \<Rightarrow>
                             \<lparr>events = e3 @ catch_handler message, outcome = Failed\<rparr>
                         | HasError \<Rightarrow>
                             \<lparr>events = e3 @ manual_guidance, outcome = ManualFallback\<rparr>
                         | NoError \<Rightarrow>
                             \<lparr>events = e3 @ completed_report, outcome = Completed\<rparr>)))"

text \<open>
  The module's top level, lines 19 to 30 and 105: the configuration check, the client,
  and the call of \<^verbatim>\<open>applyMigration\<close>. \<^verbatim>\<open>process.exit(1)\<close> ends the process at once.
\<close>

definition run_script :: "world \<Rightarrow> run" where
  "run_script w =
     (let supabaseUrl = env_url w; supabaseAnonKey = env_key w
      in if js_not supabaseUrl \<or> js_not supabaseAnonKey then
           \<lparr>events = [ConsoleError msg_missing_env, ConsoleError msg_please_ensure,
                       ProcessExit 1],
            outcome = MissingConfiguration\<rparr>
         else
           (let r = applyMigration w
            in r\<lparr>events := CreateClient supabaseUrl supabaseAnonKey # events r\<rparr>))"

section \<open>Notions used to state the properties\<close>

fun join_with :: "code_unit \<Rightarrow> js_string list \<Rightarrow> js_string" where
  \<comment> \<open>The pieces written one after the other with the separator between neighbours.\<close>
  "join_with sep [] = []"
| "join_with sep [piece] = piece"
| "join_with sep (piece # pieces) = piece @ sep # join_with sep pieces"

definition is_split :: "code_unit \<Rightarrow> js_string \<Rightarrow> js_string list \<Rightarrow> bool" where
  \<comment> \<open>What splitting a text on a separator means: the pieces contain no separator and,
      joined by the separator, give the text back.\<close>
  "is_split sep text pieces \<longleftrightarrow>
     pieces \<noteq> [] \<and> list_all (\<lambda>piece. sep \<notin> set piece) pieces \<and> join_with sep pieces = text"

definition spec_whitespace :: "code_unit \<Rightarrow> bool" where
  \<comment> \<open>White space as the specification's trimming understands it, unit by unit: the
      ASCII controls TAB to CR, the space, the no-break space, the Unicode space
      separators, the line and paragraph separators and the byte order mark.\<close>
  "spec_whitespace c \<longleftrightarrow>
     c = 0x0009 \<or> c = 0x000A \<or> c = 0x000B \<or> c = 0x000C \<or> c = 0x000D \<or> c = 0x0020 \<or>
     c = 0x00A0 \<or> c = 0x1680 \<or> c = 0x2000 \<or> c = 0x2001 \<or> c = 0x2002 \<or> c = 0x2003 \<or>
     c = 0x2004 \<or> c = 0x2005 \<or> c = 0x2006 \<or> c = 0x2007 \<or> c = 0x2008 \<or> c = 0x2009 \<or>
     c = 0x200A \<or> c = 0x2028 \<or> c = 0x2029 \<or> c = 0x202F \<or> c = 0x205F \<or> c = 0x3000 \<or>
     c = 0xFEFF"

definition spec_trimmed :: "js_string \<Rightarrow> js_string \<Rightarrow> bool" where
  \<comment> \<open>What trimming a fragment of white space means: the fragment is the result with
      white space and nothing else before and after it, and the result neither begins
      nor ends with white space.\<close>
  "spec_trimmed fragment t \<longleftrightarrow>
     (\<exists>before after. fragment = before @ t @ after
        \<and> list_all spec_whitespace before \<and> list_all spec_whitespace after)
     \<and> (t = [] \<or> (\<not> spec_whitespace (hd t) \<and> \<not> spec_whitespace (last t)))"

definition spec_discarded :: "js_string \<Rightarrow> bool" where
  \<comment> \<open>The trimmed fragments the specification says are dropped: the empty one, those
      that begin with two hyphens, and the two-unit text backslash, \<^verbatim>\<open>n\<close>.\<close>
  "spec_discarded t \<longleftrightarrow> t = [] \<or> prefix [0x2D, 0x2D] t \<or> t = [0x5C, 0x6E]"

fun sent :: "(js_string list \<Rightarrow> js_string \<Rightarrow> reply) \<Rightarrow> js_string list \<Rightarrow> js_string list
    \<Rightarrow> js_string list" where
  \<comment> \<open>The submissions of the statement loop as a recursion over the statements that
      are left; \<open>submitted_exec_loop\<close> below shows that the loop makes exactly these.\<close>
  "sent rpc hist [] = []"
| "sent rpc hist (s # ss) =
     (if js_truthy (trim s)
      then s # (if rpc hist s = NoError then sent rpc (hist @ [s]) ss else [])
      else sent rpc hist ss)"

definition is_statement :: "js_string \<Rightarrow> bool" where
  \<comment> \<open>A usable statement of the data model: trimmed text that is not empty and does
      not begin with the comment marker.\<close>
  "is_statement t \<longleftrightarrow> t \<noteq> [] \<and> \<not> starts_with t comment_marker"

definition env_url_name :: js_string where
  \<comment> \<open>Line 19: the variable read into \<^verbatim>\<open>supabaseUrl\<close>, the endpoint address.\<close>
  "env_url_name = asc ''NEXT_PUBLIC_SUPABASE_API''"

definition env_key_name :: js_string where
  \<comment> \<open>Line 20: the variable read into \<^verbatim>\<open>supabaseAnonKey\<close>, the access credential.\<close>
  "env_key_name = asc ''NEXT_PUBLIC_PUBLIC_API_KEY''"

definition try_block_throws :: "world \<Rightarrow> bool" where
  \<comment> \<open>A call inside the \<^verbatim>\<open>try\<close> block throws: reading the file, a submission the
      loop makes, or the probe.\<close>
  "try_block_throws w \<longleftrightarrow>
     (case read_file w (migration_path w) of
        Inl message \<Rightarrow> True
      | Inr migrationSQL \<Rightarrow>
          (case exec_loop (rpc_exec_sql w) (split_statements migrationSQL) 0 [] of
             (e2, Some message) \<Rightarrow> True
           | (e2, None) \<Rightarrow>
               (case probe_select w (submitted e2) of
                  Raises message \<Rightarrow> True
                | HasError \<Rightarrow> False
                | NoError \<Rightarrow> False)))"

section \<open>Concrete environments\<close>

definition sample_world ::
  "js_string option \<Rightarrow> js_string option \<Rightarrow> js_string + js_string
     \<Rightarrow> (js_string list \<Rightarrow> js_string \<Rightarrow> reply) \<Rightarrow> (js_string list \<Rightarrow> reply) \<Rightarrow> world" where
  \<comment> \<open>An environment with the given variables, the given result of reading the
      migration file, and the given remote behaviour; the script sits in
      \<^verbatim>\<open>/app/migrations\<close> and paths are joined with a slash.\<close>
  "sample_world url key file rpc probe =
     \<lparr>env_url = url, env_key = key, script_dir = asc ''/app/migrations'',
      path_join = (\<lambda>dir name. dir @ asc ''/'' @ name),
      read_file = (\<lambda>path. file),
      rpc_exec_sql = rpc, probe_select = probe\<rparr>"

definition accepts :: "js_string list \<Rightarrow> reply" where
  \<comment> \<open>A probe that succeeds whatever was submitted before.\<close>
  "accepts hist = NoError"

definition refuses :: "js_string list \<Rightarrow> reply" where
  \<comment> \<open>A probe that answers with an error whatever was submitted before.\<close>
  "refuses hist = HasError"

definition throws :: "js_string \<Rightarrow> js_string list \<Rightarrow> reply" where
  \<comment> \<open>A probe that throws an error with the given message.\<close>
  "throws message hist = Raises message"

definition rejects :: "js_string \<Rightarrow> js_string list \<Rightarrow> js_string \<Rightarrow> reply" where
  \<comment> \<open>A remote side that answers with an error for one statement text and accepts
      every other.\<close>
  "rejects bad hist sql = (if sql = bad then HasError else NoError)"

definition world_rejected_probe_ok :: world where
  \<comment> \<open>Both variables set, the file \<^verbatim>\<open>A;B\<close>, the statement \<^verbatim>\<open>A\<close> rejected, the probe
      successful.\<close>
  "world_rejected_probe_ok =
     sample_world (Some (asc ''u'')) (Some (asc ''k'')) (Inr (asc ''A;B''))
       (rejects (asc ''A'')) accepts"

definition world_probe_error :: world where
  \<comment> \<open>Both variables set, the file \<^verbatim>\<open>A;B\<close>, both statements accepted, the probe
      answered with an error.\<close>
  "world_probe_error =
     sample_world (Some (asc ''u'')) (Some (asc ''k'')) (Inr (asc ''A;B''))
       (rejects []) refuses"

definition world_probe_throws :: world where
  \<comment> \<open>Both variables set, the file \<^verbatim>\<open>A;B\<close>, both statements accepted, the probe
      throws.\<close>
  "world_probe_throws =
     sample_world (Some (asc ''u'')) (Some (asc ''k'')) (Inr (asc ''A;B''))
       (rejects []) (throws (asc ''fetch failed''))"

definition world_no_url :: world where
  \<comment> \<open>The endpoint address is not set.\<close>
  "world_no_url =
     sample_world None (Some (asc ''k'')) (Inr (asc ''A;B'')) (rejects []) accepts"

definition world_no_key :: world where
  \<comment> \<open>The access credential is not set.\<close>
  "world_no_key =
     sample_world (Some (asc ''u'')) None (Inr (asc ''A;B'')) (rejects []) accepts"

definition world_no_file :: world where
  \<comment> \<open>Both variables set, the migration file cannot be read.\<close>
  "world_no_file =
     sample_world (Some (asc ''u'')) (Some (asc ''k'')) (Inl (asc ''ENOENT''))
       (rejects []) accepts"

section \<open>Properties of the string operations\<close>


lemma split_on_not_Nil: "split_on sep s \<noteq> []"
  by (induction s) (auto split: list.splits)

lemma join_with_Cons: "pieces \<noteq> [] \<Longrightarrow> join_with sep (p # pieces) = p @ sep # join_with sep pieces"
  by (cases pieces) auto

lemma join_split_on: "join_with sep (split_on sep s) = s"
proof (induction s)
  case Nil
  show ?case by simp
next
  case (Cons c cs)
  show ?case
  proof (cases "c = sep")
    case True
    with Cons show ?thesis by (simp add: join_with_Cons split_on_not_Nil)
  next
    case False
    obtain p ps where sp: "split_on sep cs = p # ps"
      using split_on_not_Nil [of sep cs] by (cases "split_on sep cs") auto
    with Cons have "join_with sep (p # ps) = cs" by simp
    then have "join_with sep ((c # p) # ps) = c # cs"
      by (cases ps) auto
    with False sp show ?thesis by simp
  qed
qed

lemma split_on_no_sep: "piece \<in> set (split_on sep s) \<Longrightarrow> sep \<notin> set piece"
  by (induction s arbitrary: piece) (auto split: if_splits list.splits)

lemma split_on_sep_free: "sep \<notin> set p \<Longrightarrow> split_on sep (p @ sep # rest) = p # split_on sep rest"
  by (induction p) (auto split: list.splits)

lemma split_on_sep_free_last: "sep \<notin> set p \<Longrightarrow> split_on sep p = [p]"
  by (induction p) (auto split: list.splits)

lemma split_on_join:
  "pieces \<noteq> [] \<Longrightarrow> \<forall>p \<in> set pieces. sep \<notin> set p \<Longrightarrow> split_on sep (join_with sep pieces) = pieces"
proof (induction sep pieces rule: join_with.induct)
  case (1 sep)
  then show ?case by simp
next
  case (2 sep piece)
  then show ?case by (simp add: split_on_sep_free_last)
next
  case (3 sep piece v va)
  then show ?case by (simp add: split_on_sep_free)
qed

lemma is_split_split_on: "is_split sep s (split_on sep s)"
  by (simp add: is_split_def split_on_not_Nil join_split_on list_all_iff split_on_no_sep)

lemma is_split_unique: "is_split sep s pieces \<Longrightarrow> pieces = split_on sep s"
  using split_on_join [of pieces sep] by (auto simp: is_split_def list_all_iff)

lemma trim_Nil: "trim [] = []"
  by (simp add: trim_def)

lemma trim_ends:
  "trim s = [] \<or> (\<not> js_whitespace (hd (trim s)) \<and> \<not> js_whitespace (last (trim s)))"
proof -
  define a where "a = dropWhile js_whitespace s"
  define b where "b = dropWhile js_whitespace (rev a)"
  have t: "trim s = rev b" by (simp add: trim_def a_def b_def)
  show ?thesis
  proof (cases "b = []")
    case True
    then show ?thesis by (simp add: t)
  next
    case False
    then have hb: "\<not> js_whitespace (hd b)" unfolding b_def by (rule hd_dropWhile)
    have "rev a = takeWhile js_whitespace (rev a) @ b" unfolding b_def by simp
    then have "rev (rev a) = rev (takeWhile js_whitespace (rev a) @ b)" by (rule arg_cong)
    then have a: "a = rev b @ rev (takeWhile js_whitespace (rev a))" by simp
    with False have "a \<noteq> []" by auto
    then have ha: "\<not> js_whitespace (hd a)" unfolding a_def by (rule hd_dropWhile)
    have "hd a = hd (rev b @ rev (takeWhile js_whitespace (rev a)))" using a by (rule arg_cong)
    also have "\<dots> = hd (rev b)" using False by simp
    finally have "\<not> js_whitespace (hd (rev b))" using ha by simp
    moreover have "last (rev b) = hd b" using False by (simp add: last_rev)
    ultimately show ?thesis using hb by (simp add: t)
  qed
qed

lemma dropWhile_id_hd: "xs \<noteq> [] \<Longrightarrow> \<not> P (hd xs) \<Longrightarrow> dropWhile P xs = xs"
  by (cases xs) auto

lemma trim_idem: "trim (trim s) = trim s"
proof (cases "trim s = []")
  case True
  show ?thesis by (simp only: True trim_Nil)
next
  case False
  with trim_ends [of s] have h: "\<not> js_whitespace (hd (trim s))" and l: "\<not> js_whitespace (last (trim s))"
    by auto
  have 1: "dropWhile js_whitespace (trim s) = trim s"
    using False h by (rule dropWhile_id_hd)
  have "hd (rev (trim s)) = last (trim s)" using False by (simp add: hd_rev)
  then have 2: "dropWhile js_whitespace (rev (trim s)) = rev (trim s)"
    using False l by (intro dropWhile_id_hd) auto
  show ?thesis
    unfolding trim_def [of "trim s"] 1 2 by simp
qed

lemma trim_decomp:
  "\<exists>l r. s = l @ trim s @ r \<and> list_all js_whitespace l \<and> list_all js_whitespace r"
proof -
  let ?a = "dropWhile js_whitespace s"
  let ?b = "dropWhile js_whitespace (rev ?a)"
  have 1: "s = takeWhile js_whitespace s @ ?a" by simp
  have "rev ?a = takeWhile js_whitespace (rev ?a) @ ?b" by simp
  then have 2: "?a = rev ?b @ rev (takeWhile js_whitespace (rev ?a))"
    by (metis rev_append rev_rev_ident)
  have "s = takeWhile js_whitespace s @ trim s @ rev (takeWhile js_whitespace (rev ?a))"
    using 1 2 by (simp add: trim_def)
  moreover have "list_all js_whitespace (takeWhile js_whitespace s)"
    by (auto simp: list_all_iff dest: set_takeWhileD)
  moreover have "list_all js_whitespace (rev (takeWhile js_whitespace (rev ?a)))"
    by (auto simp: list_all_iff dest: set_takeWhileD)
  ultimately show ?thesis by blast
qed


lemmas splitter_defs =
  split_statements_def asc_def keep_stmt_def trim_def starts_with_def js_whitespace_def
  semicolon_def comment_marker_def escaped_newline_def

section \<open>The splitter against its description\<close>

lemma spec_whitespace_iff: "spec_whitespace c \<longleftrightarrow> js_whitespace c"
  by (simp add: spec_whitespace_def js_whitespace_def)

lemma spec_trimmed_trim: "spec_trimmed f (trim f)"
  unfolding spec_trimmed_def spec_whitespace_iff [abs_def]
  using trim_decomp [of f] trim_ends [of f] by blast

lemma spec_trimmed_unique:
  assumes "spec_trimmed f t"
  shows "t = trim f"
proof -
  from assms obtain l r where f: "f = l @ t @ r"
    and l: "\<forall>c \<in> set l. js_whitespace c" and r: "\<forall>c \<in> set r. js_whitespace c"
    and e: "t = [] \<or> (\<not> js_whitespace (hd t) \<and> \<not> js_whitespace (last t))"
    unfolding spec_trimmed_def spec_whitespace_iff [abs_def] list_all_iff by blast
  from l have 1: "dropWhile js_whitespace f = dropWhile js_whitespace (t @ r)"
    unfolding f by (simp add: dropWhile_append2)
  show ?thesis
  proof (cases "t = []")
    case True
    with r have "dropWhile js_whitespace (t @ r) = []" by simp
    with 1 have "trim f = []" by (simp only: trim_def rev.simps dropWhile.simps)
    with True show ?thesis by simp
  next
    case False
    with e have h: "\<not> js_whitespace (hd t)" and la: "\<not> js_whitespace (last t)" by auto
    from False h have "dropWhile js_whitespace (t @ r) = t @ r"
      by (intro dropWhile_id_hd) auto
    with 1 have 2: "dropWhile js_whitespace f = t @ r" by simp
    have "dropWhile js_whitespace (rev r @ rev t) = dropWhile js_whitespace (rev t)"
      by (rule dropWhile_append2) (use r in auto)
    also from False la have "\<dots> = rev t"
      by (intro dropWhile_id_hd) (auto simp: hd_rev)
    finally have "dropWhile js_whitespace (rev (t @ r)) = rev t" by simp
    then show ?thesis by (simp only: trim_def 2 rev_rev_ident)
  qed
qed

lemma all_trimmed_unique: "list_all2 spec_trimmed fs ts \<Longrightarrow> ts = map trim fs"
  by (induction fs ts rule: list_all2_induct) (auto dest: spec_trimmed_unique)

lemma all_trimmed_trim: "list_all2 spec_trimmed fs (map trim fs)"
  by (induction fs) (auto simp: spec_trimmed_trim)

lemma starts_with_prefix: "starts_with t p \<longleftrightarrow> prefix p t"
proof
  assume "starts_with t p"
  then have "take (length p) t = p" by (simp add: starts_with_def)
  then show "prefix p t" by (metis take_is_prefix)
next
  assume "prefix p t"
  then show "starts_with t p" by (auto simp: prefix_def starts_with_def)
qed

lemma keep_stmt_iff: "keep_stmt t \<longleftrightarrow> \<not> spec_discarded t"
  by (auto simp: keep_stmt_def spec_discarded_def starts_with_prefix comment_marker_def
      escaped_newline_def)

section \<open>Claims about the statement splitter\<close>

text \<open>
  Claim C1. For every source text, every statement the splitter returns is non-empty
  after trimming and does not begin with the comment marker \<^verbatim>\<open>--\<close>, and the
  returned statements come in the order of their fragments in the source text: they
  are a subsequence of the trimmed fragments, and the fragments, joined by \<^verbatim>\<open>;\<close> in
  their order, are the source text.
\<close>

theorem c1_statements_well_formed:
  "(\<forall>stmt \<in> set (split_statements src).
       trim stmt \<noteq> [] \<and> \<not> starts_with stmt comment_marker)
   \<and> subseq (split_statements src) (map trim (split_on semicolon src))
   \<and> is_split semicolon src (split_on semicolon src)"
proof (intro conjI ballI)
  fix stmt
  assume "stmt \<in> set (split_statements src)"
  then obtain f where f: "stmt = trim f" and k: "keep_stmt stmt"
    by (auto simp: split_statements_def)
  from f have "trim stmt = stmt" by (simp add: trim_idem)
  with k show "trim stmt \<noteq> []" by (simp add: keep_stmt_def)
  from k show "\<not> starts_with stmt comment_marker" by (simp add: keep_stmt_def)
next
  show "subseq (split_statements src) (map trim (split_on semicolon src))"
    unfolding split_statements_def by (rule subseq_filter_left)
next
  show "is_split semicolon src (split_on semicolon src)" by (rule is_split_split_on)
qed

text \<open>
  The source text \<^verbatim>\<open>a; --b;c\<close> has the statement \<^verbatim>\<open>a\<close>, for which C1 gives both
  properties.
\<close>

theorem c1_statements_well_formed_witness:
  "asc ''a'' \<in> set (split_statements (asc ''a; --b;c''))
   \<and> trim (asc ''a'') \<noteq> [] \<and> \<not> starts_with (asc ''a'') comment_marker"
proof -
  have m: "asc ''a'' \<in> set (split_statements (asc ''a; --b;c''))"
    by (simp add: splitter_defs)
  with c1_statements_well_formed [of "asc ''a; --b;c''"] show ?thesis by blast
qed

text \<open>
  Claim C7. The splitter splits the source text on \<^verbatim>\<open>;\<close> (the unit \<open>0x3B\<close>), trims
  each fragment of white space, and discards exactly the trimmed fragments that are
  empty, begin with \<^verbatim>\<open>--\<close> or are the two-unit marker backslash, \<^verbatim>\<open>n\<close>; every other
  fragment is kept, in its place. The fragments and their trimmed forms exist for every
  text, and whichever fragments and trimmed forms meet the description, the splitter
  returns the trimmed forms that are not discarded.
\<close>

theorem c7_splitter_matches_description:
  "(\<exists>fragments trimmed.
      is_split 0x3B src fragments \<and> list_all2 spec_trimmed fragments trimmed)
   \<and> (\<forall>fragments trimmed.
         is_split 0x3B src fragments \<and> list_all2 spec_trimmed fragments trimmed \<longrightarrow>
         split_statements src = filter (\<lambda>t. \<not> spec_discarded t) trimmed)"
proof (intro conjI allI impI)
  have "is_split 0x3B src (split_on 0x3B src)" by (rule is_split_split_on)
  moreover have "list_all2 spec_trimmed (split_on 0x3B src) (map trim (split_on 0x3B src))"
    by (rule all_trimmed_trim)
  ultimately show "\<exists>fragments trimmed.
      is_split 0x3B src fragments \<and> list_all2 spec_trimmed fragments trimmed"
    by blast
next
  fix fragments trimmed
  assume a: "is_split 0x3B src fragments \<and> list_all2 spec_trimmed fragments trimmed"
  then have "fragments = split_on 0x3B src" by (simp add: is_split_unique)
  moreover from a have "trimmed = map trim fragments" by (simp add: all_trimmed_unique)
  ultimately show "split_statements src = filter (\<lambda>t. \<not> spec_discarded t) trimmed"
    by (simp add: split_statements_def semicolon_def keep_stmt_iff [abs_def])
qed

text \<open>
  A text with one fragment of each kind: a statement, a comment after a space, the
  marker, and a statement before a line feed.
\<close>

theorem c7_splitter_matches_description_witness:
  "is_split 0x3B (asc ''a; --b;'' @ [0x5C, 0x6E] @ asc '';c'' @ [0x0A])
     [asc ''a'', asc '' --b'', [0x5C, 0x6E], asc ''c'' @ [0x0A]]
   \<and> list_all2 spec_trimmed
         [asc ''a'', asc '' --b'', [0x5C, 0x6E], asc ''c'' @ [0x0A]]
         [asc ''a'', asc ''--b'', [0x5C, 0x6E], asc ''c'']
   \<and> split_statements (asc ''a; --b;'' @ [0x5C, 0x6E] @ asc '';c'' @ [0x0A])
       = [asc ''a'', asc ''c'']"
proof -
  have s: "is_split 0x3B (asc ''a; --b;'' @ [0x5C, 0x6E] @ asc '';c'' @ [0x0A])
             [asc ''a'', asc '' --b'', [0x5C, 0x6E], asc ''c'' @ [0x0A]]"
    by (simp add: is_split_def asc_def)
  have 1: "spec_trimmed (asc ''a'') (asc ''a'')"
    unfolding spec_trimmed_def
    by (intro conjI exI [of _ "[]"]) (simp_all add: asc_def spec_whitespace_def)
  have 2: "spec_trimmed (asc '' --b'') (asc ''--b'')"
    unfolding spec_trimmed_def
    by (intro conjI exI [of _ "[0x20]"] exI [of _ "[]"])
      (simp_all add: asc_def spec_whitespace_def)
  have 3: "spec_trimmed [0x5C, 0x6E] [0x5C, 0x6E]"
    unfolding spec_trimmed_def
    by (intro conjI exI [of _ "[]"]) (simp_all add: spec_whitespace_def)
  have 4: "spec_trimmed (asc ''c'' @ [0x0A]) (asc ''c'')"
    unfolding spec_trimmed_def
    by (intro conjI exI [of _ "[]"] exI [of _ "[0x0A]"])
      (simp_all add: asc_def spec_whitespace_def)
  have t: "list_all2 spec_trimmed
         [asc ''a'', asc '' --b'', [0x5C, 0x6E], asc ''c'' @ [0x0A]]
         [asc ''a'', asc ''--b'', [0x5C, 0x6E], asc ''c'']"
    using 1 2 3 4 by simp
  have "filter (\<lambda>t. \<not> spec_discarded t) [asc ''a'', asc ''--b'', [0x5C, 0x6E], asc ''c'']
        = [asc ''a'', asc ''c'']"
    by (simp add: spec_discarded_def asc_def)
  with c7_splitter_matches_description
         [of "asc ''a; --b;'' @ [0x5C, 0x6E] @ asc '';c'' @ [0x0A]"] s t
  show ?thesis by metis
qed

text \<open>
  Claim C6. The source text
  \<^verbatim>\<open>CREATE TABLE a (id int);\n-- comment\n;   \nCREATE INDEX idx ON a(id);\<close>, with line
  feeds for \<^verbatim>\<open>\n\<close>, splits into exactly the two statements
  \<^verbatim>\<open>CREATE TABLE a (id int)\<close> and \<^verbatim>\<open>CREATE INDEX idx ON a(id)\<close>, in this order.
\<close>

theorem c6_example_split:
  "split_statements
     (asc (''CREATE TABLE a (id int);'' @ [CHR 0x0A] @ ''-- comment'' @ [CHR 0x0A] @
           '';   '' @ [CHR 0x0A] @ ''CREATE INDEX idx ON a(id);''))
   = [asc ''CREATE TABLE a (id int)'', asc ''CREATE INDEX idx ON a(id)'']"
  by (simp add: splitter_defs)

section \<open>Properties of the statement loop\<close>

lemma submitted_append: "submitted (xs @ ys) = submitted xs @ submitted ys"
  by (induction xs rule: submitted.induct) auto

lemma exit_status_append:
  "(\<forall>n. ProcessExit n \<notin> set xs) \<Longrightarrow> exit_status (xs @ ys) = exit_status ys"
  by (induction xs rule: exit_status.induct) auto

lemma exec_loop_done:
  "\<not> i < length statements \<Longrightarrow> exec_loop rpc statements i hist = ([], None)"
  by (simp add: exec_loop.simps [of rpc statements i hist])

lemma exec_loop_skip:
  "i < length statements \<Longrightarrow> \<not> js_truthy (trim (statements ! i)) \<Longrightarrow>
   exec_loop rpc statements i hist = exec_loop rpc statements (Suc i) hist"
  by (simp add: exec_loop.simps [of rpc statements i hist])

lemma exec_loop_ok:
  "i < length statements \<Longrightarrow> js_truthy (trim (statements ! i)) \<Longrightarrow>
   rpc hist (statements ! i) = NoError \<Longrightarrow>
   exec_loop rpc statements i hist =
     (ConsoleLog (msg_executing i (length statements)) # RpcExecSql (statements ! i) #
        fst (exec_loop rpc statements (Suc i) (hist @ [statements ! i])),
      snd (exec_loop rpc statements (Suc i) (hist @ [statements ! i])))"
  by (simp add: exec_loop.simps [of rpc statements i hist] Let_def split: prod.splits)

lemma exec_loop_error:
  "i < length statements \<Longrightarrow> js_truthy (trim (statements ! i)) \<Longrightarrow>
   rpc hist (statements ! i) = HasError \<Longrightarrow>
   exec_loop rpc statements i hist =
     ([ConsoleLog (msg_executing i (length statements)), RpcExecSql (statements ! i),
       ConsoleLog msg_rpc_unavailable], None)"
  by (simp add: exec_loop.simps [of rpc statements i hist])

lemma exec_loop_raises:
  "i < length statements \<Longrightarrow> js_truthy (trim (statements ! i)) \<Longrightarrow>
   rpc hist (statements ! i) = Raises m \<Longrightarrow>
   exec_loop rpc statements i hist =
     ([ConsoleLog (msg_executing i (length statements)), RpcExecSql (statements ! i)], Some m)"
  by (simp add: exec_loop.simps [of rpc statements i hist])

lemma submitted_exec_loop:
  "submitted (fst (exec_loop rpc statements i hist)) = sent rpc hist (drop i statements)"
proof (induction rpc statements i hist rule: exec_loop.induct)
  case (1 rpc statements i hist)
  show ?case
  proof (cases "i < length statements")
    case False
    then show ?thesis by (simp add: exec_loop_done)
  next
    case True
    then have d: "drop i statements = statements ! i # drop (Suc i) statements"
      by (simp add: Cons_nth_drop_Suc)
    show ?thesis
    proof (cases "js_truthy (trim (statements ! i))")
      case False
      with True "1.IH"(2) [OF True refl False] show ?thesis
        by (simp add: exec_loop_skip d)
    next
      case t: True
      show ?thesis
      proof (cases "rpc hist (statements ! i)")
        case NoError
        with True t "1.IH"(1) [OF True refl t NoError] show ?thesis
          by (simp add: exec_loop_ok d)
      next
        case HasError
        with True t show ?thesis by (simp add: exec_loop_error d)
      next
        case (Raises m)
        with True t show ?thesis by (simp add: exec_loop_raises d)
      qed
    qed
  qed
qed

lemma exec_loop_events:
  "ev \<in> set (fst (exec_loop rpc statements i hist)) \<Longrightarrow>
   (\<exists>line. ev = ConsoleLog line) \<or> (\<exists>sql. ev = RpcExecSql sql)"
proof (induction rpc statements i hist rule: exec_loop.induct)
  case (1 rpc statements i hist)
  show ?case
  proof (cases "i < length statements")
    case False
    with "1.prems" show ?thesis by (simp add: exec_loop_done)
  next
    case True
    show ?thesis
    proof (cases "js_truthy (trim (statements ! i))")
      case False
      with True "1.IH"(2) [OF True refl False] "1.prems" show ?thesis
        by (simp add: exec_loop_skip)
    next
      case t: True
      show ?thesis
      proof (cases "rpc hist (statements ! i)")
        case NoError
        with True t "1.IH"(1) [OF True refl t NoError] "1.prems" show ?thesis
          by (auto simp: exec_loop_ok)
      next
        case HasError
        with True t "1.prems" show ?thesis by (auto simp: exec_loop_error)
      next
        case (Raises m)
        with True t "1.prems" show ?thesis by (auto simp: exec_loop_raises)
      qed
    qed
  qed
qed

text \<open>
  What the loop submits is described by \<^const>\<open>sent\<close>: a prefix of the non-blank
  statements that ends with the first statement not answered \<^const>\<open>NoError\<close>.
\<close>

lemma sent_prefix: "prefix (sent rpc hist ss) (filter (\<lambda>s. js_truthy (trim s)) ss)"
  by (induction ss arbitrary: hist) auto

lemma sent_stops:
  "js_truthy (trim s) \<Longrightarrow> rpc (hist @ sent rpc hist pre) s \<noteq> NoError \<Longrightarrow>
   sent rpc hist (pre @ s # post) = sent rpc hist (pre @ [s])"
  by (induction pre arbitrary: hist) auto

lemma sent_all_kept:
  "\<forall>s \<in> set ss. js_truthy (trim s) \<Longrightarrow>
   \<forall>j < k. j < length ss \<longrightarrow> rpc (hist @ take j ss) (ss ! j) = NoError \<Longrightarrow>
   prefix (take (Suc k) ss) (sent rpc hist ss)"
proof (induction ss arbitrary: hist k)
  case Nil
  then show ?case by simp
next
  case (Cons s ss)
  show ?case
  proof (cases k)
    case 0
    with Cons.prems(1) show ?thesis by simp
  next
    case (Suc k')
    with Cons.prems(2) have ok: "rpc hist s = NoError" by fastforce
    have "\<forall>j < k'. j < length ss \<longrightarrow> rpc ((hist @ [s]) @ take j ss) (ss ! j) = NoError"
    proof (intro allI impI)
      fix j assume "j < k'" "j < length ss"
      with Cons.prems(2) [rule_format, of "Suc j"] Suc
      show "rpc ((hist @ [s]) @ take j ss) (ss ! j) = NoError" by simp
    qed
    with Cons.IH [of k' "hist @ [s]"] Cons.prems(1)
    have "prefix (take (Suc k') ss) (sent rpc (hist @ [s]) ss)" by simp
    with ok Cons.prems(1) Suc show ?thesis by simp
  qed
qed


section \<open>The run as a whole\<close>

lemma run_script_missing:
  "js_not (env_url w) \<or> js_not (env_key w) \<Longrightarrow>
   run_script w = \<lparr>events = [ConsoleError msg_missing_env, ConsoleError msg_please_ensure,
                               ProcessExit 1],
                   outcome = MissingConfiguration\<rparr>"
  by (auto simp: run_script_def)

lemma run_script_unreadable:
  "\<not> js_not (env_url w) \<Longrightarrow> \<not> js_not (env_key w) \<Longrightarrow>
   read_file w (migration_path w) = Inl m \<Longrightarrow>
   run_script w =
     \<lparr>events = CreateClient (env_url w) (env_key w) # ConsoleLog msg_starting #
                 ReadFileSync (migration_path w) # catch_handler m,
      outcome = Failed\<rparr>"
  by (simp add: run_script_def applyMigration_def)

lemma run_script_loaded:
  "\<not> js_not (env_url w) \<Longrightarrow> \<not> js_not (env_key w) \<Longrightarrow>
   read_file w (migration_path w) = Inr sql \<Longrightarrow>
   exec_loop (rpc_exec_sql w) (split_statements sql) 0 [] = (e2, thrown) \<Longrightarrow>
   run_script w =
     (let e1 = [CreateClient (env_url w) (env_key w), ConsoleLog msg_starting,
                ReadFileSync (migration_path w), ConsoleLog msg_loaded,
                ConsoleLog (msg_executing_all (length (split_statements sql)))] @ e2
      in case thrown of
           Some m \<Rightarrow> \<lparr>events = e1 @ catch_handler m, outcome = Failed\<rparr>
         | None \<Rightarrow>
             (case probe_select w (submitted e2) of
                Raises m \<Rightarrow>
                  \<lparr>events = e1 @ [ConsoleLog msg_attempting, ProbeSelect] @ catch_handler m,
                   outcome = Failed\<rparr>
              | HasError \<Rightarrow>
                  \<lparr>events = e1 @ [ConsoleLog msg_attempting, ProbeSelect] @ manual_guidance,
                   outcome = ManualFallback\<rparr>
              | NoError \<Rightarrow>
                  \<lparr>events = e1 @ [ConsoleLog msg_attempting, ProbeSelect] @ completed_report,
                   outcome = Completed\<rparr>))"
  by (simp add: run_script_def applyMigration_def Let_def split: option.splits reply.splits)

lemma submitted_catch_handler: "submitted (catch_handler m) = []"
  by (simp add: catch_handler_def)

lemma submitted_manual_guidance: "submitted manual_guidance = []"
  by (simp add: manual_guidance_def)

lemma submitted_completed_report: "submitted completed_report = []"
  by (simp add: completed_report_def)

lemma exit_status_catch_handler: "exit_status (catch_handler m) = 1"
  by (simp add: catch_handler_def)

lemma exit_status_manual_guidance: "exit_status manual_guidance = 0"
  by (simp add: manual_guidance_def)

lemma exit_status_completed_report: "exit_status completed_report = 0"
  by (simp add: completed_report_def)

lemma probe_catch_handler: "ProbeSelect \<notin> set (catch_handler m)"
  by (simp add: catch_handler_def)

lemma exec_loop_no_exit: "ProcessExit n \<notin> set (fst (exec_loop rpc statements i hist))"
  using exec_loop_events [of "ProcessExit n" rpc statements i hist] by auto

lemma exec_loop_no_probe: "ProbeSelect \<notin> set (fst (exec_loop rpc statements i hist))"
  using exec_loop_events [of ProbeSelect rpc statements i hist] by auto

lemma run_submitted:
  "submitted (events (run_script w)) =
     (if js_not (env_url w) \<or> js_not (env_key w) then []
      else case read_file w (migration_path w) of
             Inl m \<Rightarrow> []
           | Inr sql \<Rightarrow> submitted (fst (exec_loop (rpc_exec_sql w) (split_statements sql) 0 [])))"
proof (cases "js_not (env_url w) \<or> js_not (env_key w)")
  case True
  then show ?thesis by (simp add: run_script_missing)
next
  case False
  then have c: "\<not> js_not (env_url w)" "\<not> js_not (env_key w)" by auto
  show ?thesis
  proof (cases "read_file w (migration_path w)")
    case (Inl m)
    with c show ?thesis by (simp add: run_script_unreadable submitted_catch_handler)
  next
    case (Inr sql)
    obtain e2 thrown where l: "exec_loop (rpc_exec_sql w) (split_statements sql) 0 [] = (e2, thrown)"
      by (cases "exec_loop (rpc_exec_sql w) (split_statements sql) 0 []")
    show ?thesis
      using False Inr l
      by (simp add: run_script_loaded [OF c Inr l] Let_def submitted_append
          submitted_catch_handler submitted_manual_guidance submitted_completed_report
          split: option.splits reply.splits)
  qed
qed


lemma run_outcome_exit:
  "(outcome (run_script w) = Completed \<and> exit_status (events (run_script w)) = 0)
   \<or> (outcome (run_script w) = ManualFallback \<and> exit_status (events (run_script w)) = 0)
   \<or> (outcome (run_script w) = Failed \<and> exit_status (events (run_script w)) = 1)
   \<or> (outcome (run_script w) = MissingConfiguration
        \<and> exit_status (events (run_script w)) = 1)"
proof (cases "js_not (env_url w) \<or> js_not (env_key w)")
  case True
  then show ?thesis by (simp add: run_script_missing)
next
  case False
  then have c: "\<not> js_not (env_url w)" "\<not> js_not (env_key w)" by auto
  show ?thesis
  proof (cases "read_file w (migration_path w)")
    case (Inl m)
    with c show ?thesis by (simp add: run_script_unreadable exit_status_catch_handler)
  next
    case (Inr sql)
    define e2 where "e2 = fst (exec_loop (rpc_exec_sql w) (split_statements sql) 0 [])"
    define thrown where "thrown = snd (exec_loop (rpc_exec_sql w) (split_statements sql) 0 [])"
    have l: "exec_loop (rpc_exec_sql w) (split_statements sql) 0 [] = (e2, thrown)"
      by (simp add: e2_def thrown_def)
    have ne: "\<forall>n. ProcessExit n \<notin> set e2"
      unfolding e2_def by (simp add: exec_loop_no_exit)
    show ?thesis
      by (simp add: run_script_loaded [OF c Inr l] Let_def exit_status_append [OF ne]
          exit_status_catch_handler exit_status_manual_guidance exit_status_completed_report
          split: option.splits reply.splits)
  qed
qed

lemma failed_iff_throws:
  "outcome (run_script w) = Failed \<longleftrightarrow>
     \<not> js_not (env_url w) \<and> \<not> js_not (env_key w) \<and> try_block_throws w"
proof (cases "js_not (env_url w) \<or> js_not (env_key w)")
  case True
  then show ?thesis by (auto simp: run_script_missing)
next
  case False
  then have c: "\<not> js_not (env_url w)" "\<not> js_not (env_key w)" by auto
  show ?thesis
  proof (cases "read_file w (migration_path w)")
    case (Inl m)
    with c show ?thesis by (simp add: run_script_unreadable try_block_throws_def)
  next
    case (Inr sql)
    obtain e2 thrown where l: "exec_loop (rpc_exec_sql w) (split_statements sql) 0 [] = (e2, thrown)"
      by (cases "exec_loop (rpc_exec_sql w) (split_statements sql) 0 []")
    show ?thesis
      using c Inr l
      by (simp add: run_script_loaded [OF c Inr l] Let_def try_block_throws_def
          split: option.splits reply.splits)
  qed
qed

lemma never_partial_fallback: "outcome (run_script w) \<noteq> PartialFallback"
  using run_outcome_exit [of w] by auto

lemmas run_defs =
  sample_world_def rejects_def accepts_def refuses_def throws_def migration_path_def
  js_not_def js_truthy_def

section \<open>Claims about the statement loop\<close>

text \<open>
  Claim C3. For every statement sequence and every behaviour of the remote side: when
  the remote side answers a statement \<open>s\<close> with a failure, nothing that follows \<open>s\<close> in
  the sequence is submitted. What the loop submits from \<open>pre @ s # post\<close> is an initial
  part of the non-blank statements of \<open>pre @ [s]\<close>. In particular, when the first
  statement is rejected, it is the only submission.
\<close>

theorem c3_loop_stops_at_first_failure:
  "js_truthy (trim s) \<Longrightarrow>
   rpc (submitted (fst (exec_loop rpc pre 0 []))) s \<noteq> NoError \<Longrightarrow>
   prefix (submitted (fst (exec_loop rpc (pre @ s # post) 0 [])))
          (filter (\<lambda>x. js_truthy (trim x)) (pre @ [s]))
   \<and> (pre = [] \<longrightarrow> submitted (fst (exec_loop rpc (s # post) 0 [])) = [s])"
proof
  assume t: "js_truthy (trim s)"
    and r: "rpc (submitted (fst (exec_loop rpc pre 0 []))) s \<noteq> NoError"
  from r have r': "rpc ([] @ sent rpc [] pre) s \<noteq> NoError"
    by (simp add: submitted_exec_loop)
  have "submitted (fst (exec_loop rpc (pre @ s # post) 0 [])) = sent rpc [] (pre @ [s])"
    using sent_stops [where s = s and rpc = rpc and hist = "[]" and pre = pre and post = post] t r'
    by (simp add: submitted_exec_loop)
  then show "prefix (submitted (fst (exec_loop rpc (pre @ s # post) 0 [])))
          (filter (\<lambda>x. js_truthy (trim x)) (pre @ [s]))"
    using sent_prefix [of rpc "[]" "pre @ [s]"] by simp
  show "pre = [] \<longrightarrow> submitted (fst (exec_loop rpc (s # post) 0 [])) = [s]"
  proof
    assume "pre = []"
    with r have "rpc [] s \<noteq> NoError" by (simp add: exec_loop_done)
    with t show "submitted (fst (exec_loop rpc (s # post) 0 [])) = [s]"
      by (simp add: submitted_exec_loop)
  qed
qed

text \<open>
  Two runs of the loop on \<^verbatim>\<open>A\<close>, \<^verbatim>\<open>B\<close>, \<^verbatim>\<open>C\<close>: with \<^verbatim>\<open>B\<close> rejected, \<^verbatim>\<open>C\<close> is
  not submitted; with \<^verbatim>\<open>A\<close> rejected, only \<^verbatim>\<open>A\<close> is.
\<close>

theorem c3_loop_stops_at_first_failure_witness:
  "prefix (submitted (fst (exec_loop (rejects (asc ''B'')) ([asc ''A''] @ asc ''B'' # [asc ''C'']) 0 [])))
          [asc ''A'', asc ''B'']
   \<and> submitted (fst (exec_loop (rejects (asc ''A'')) (asc ''A'' # [asc ''B'', asc ''C'']) 0 [])) = [asc ''A'']"
proof -
  have tA: "js_truthy (trim (asc ''A''))" and tB: "js_truthy (trim (asc ''B''))"
    by (simp_all add: splitter_defs js_truthy_def)
  have rB: "rejects (asc ''B'') (submitted (fst (exec_loop (rejects (asc ''B'')) [asc ''A''] 0 [])))
              (asc ''B'') \<noteq> NoError"
    by (simp add: rejects_def)
  have rA: "rejects (asc ''A'') (submitted (fst (exec_loop (rejects (asc ''A'')) [] 0 [])))
              (asc ''A'') \<noteq> NoError"
    by (simp add: rejects_def)
  from c3_loop_stops_at_first_failure
         [where s = "asc ''B''" and rpc = "rejects (asc ''B'')" and pre = "[asc ''A'']"
            and post = "[asc ''C'']"]
       c3_loop_stops_at_first_failure
         [where s = "asc ''A''" and rpc = "rejects (asc ''A'')" and pre = "[]"
            and post = "[asc ''B'', asc ''C'']"]
       tA tB rA rB
  show ?thesis by simp
qed

text \<open>
  Claim C10. For every statement the splitter produces, the guard of line 53
  (\<^verbatim>\<open>statement.trim()\<close> is truthy) holds, so the loop skips none of them: as long as
  the first \<open>k\<close> statements are answered without error, the first \<open>k + 1\<close> statements
  are submitted, one submission for each, in their order, and nothing but an initial
  part of the statements is ever submitted.
\<close>

theorem c10_guard_always_passes:
  "(\<forall>stmt \<in> set (split_statements src). js_truthy (trim stmt))
   \<and> (\<forall>rpc k.
        (\<forall>j < k. j < length (split_statements src) \<longrightarrow>
           rpc (take j (split_statements src)) (split_statements src ! j) = NoError) \<longrightarrow>
        prefix (take (Suc k) (split_statements src))
               (submitted (fst (exec_loop rpc (split_statements src) 0 [])))
        \<and> prefix (submitted (fst (exec_loop rpc (split_statements src) 0 [])))
                  (split_statements src))"
proof -
  have g: "\<forall>stmt \<in> set (split_statements src). js_truthy (trim stmt)"
  proof
    fix stmt
    assume "stmt \<in> set (split_statements src)"
    then obtain f where "stmt = trim f" and "keep_stmt stmt"
      by (auto simp: split_statements_def)
    then show "js_truthy (trim stmt)"
      by (simp add: trim_idem keep_stmt_def js_truthy_def)
  qed
  then have f: "filter (\<lambda>s. js_truthy (trim s)) (split_statements src) = split_statements src"
    by simp
  show ?thesis
  proof (intro conjI allI impI)
    show "\<forall>stmt \<in> set (split_statements src). js_truthy (trim stmt)" by (rule g)
  next
    fix rpc :: "js_string list \<Rightarrow> js_string \<Rightarrow> reply" and k
    assume "\<forall>j < k. j < length (split_statements src) \<longrightarrow>
           rpc (take j (split_statements src)) (split_statements src ! j) = NoError"
    then have "\<forall>j < k. j < length (split_statements src) \<longrightarrow>
           rpc ([] @ take j (split_statements src)) (split_statements src ! j) = NoError"
      by simp
    from sent_all_kept [OF g this]
    show "prefix (take (Suc k) (split_statements src))
               (submitted (fst (exec_loop rpc (split_statements src) 0 [])))"
      by (simp add: submitted_exec_loop)
  next
    fix rpc :: "js_string list \<Rightarrow> js_string \<Rightarrow> reply"
    show "prefix (submitted (fst (exec_loop rpc (split_statements src) 0 [])))
                  (split_statements src)"
      using sent_prefix [of rpc "[]" "split_statements src"] f
      by (simp add: submitted_exec_loop)
  qed
qed

text \<open>
  The text \<^verbatim>\<open>A;B;C\<close> with \<^verbatim>\<open>B\<close> rejected: \<^verbatim>\<open>A\<close> is answered without error, so
  \<^verbatim>\<open>A\<close> and \<^verbatim>\<open>B\<close> are submitted.
\<close>

theorem c10_guard_always_passes_witness:
  "asc ''B'' \<in> set (split_statements (asc ''A;B;C'')) \<and> js_truthy (trim (asc ''B''))
   \<and> prefix [asc ''A'', asc ''B'']
        (submitted (fst (exec_loop (rejects (asc ''B'')) (split_statements (asc ''A;B;C'')) 0 [])))
   \<and> prefix (submitted (fst (exec_loop (rejects (asc ''B'')) (split_statements (asc ''A;B;C'')) 0 [])))
        [asc ''A'', asc ''B'', asc ''C'']"
proof -
  have s: "split_statements (asc ''A;B;C'') = [asc ''A'', asc ''B'', asc ''C'']"
    by (simp add: splitter_defs)
  have h: "\<forall>j < 1. j < length (split_statements (asc ''A;B;C'')) \<longrightarrow>
      rejects (asc ''B'') (take j (split_statements (asc ''A;B;C'')))
        (split_statements (asc ''A;B;C'') ! j) = NoError"
    by (simp add: s) (simp add: rejects_def asc_def)
  from c10_guard_always_passes [of "asc ''A;B;C''"]
  have g: "\<forall>stmt \<in> set (split_statements (asc ''A;B;C'')). js_truthy (trim stmt)"
    and p: "\<And>rpc k. (\<forall>j < k. j < length (split_statements (asc ''A;B;C'')) \<longrightarrow>
           rpc (take j (split_statements (asc ''A;B;C''))) (split_statements (asc ''A;B;C'') ! j) = NoError) \<Longrightarrow>
        prefix (take (Suc k) (split_statements (asc ''A;B;C'')))
               (submitted (fst (exec_loop rpc (split_statements (asc ''A;B;C'')) 0 [])))
        \<and> prefix (submitted (fst (exec_loop rpc (split_statements (asc ''A;B;C'')) 0 [])))
                  (split_statements (asc ''A;B;C''))"
    by blast+
  have m: "asc ''B'' \<in> set (split_statements (asc ''A;B;C''))" by (simp add: s)
  with g have "js_truthy (trim (asc ''B''))" by blast
  with m p [OF h] show ?thesis by (simp add: s)
qed


text \<open>
  Claim C8. For every source text without a usable statement (every fragment is, once
  trimmed, empty or a comment) the splitter returns the empty sequence; it is a total
  function, so no error is raised. The loop then ends at once, and a run on such a
  file submits nothing and goes on to the probe.
\<close>

theorem c8_no_usable_statements:
  "(\<forall>f \<in> set (split_on semicolon src). \<not> is_statement (trim f)) \<Longrightarrow>
   split_statements src = []
   \<and> (\<forall>rpc. exec_loop rpc (split_statements src) 0 [] = ([], None))
   \<and> (\<forall>w. \<not> js_not (env_url w) \<and> \<not> js_not (env_key w)
            \<and> read_file w (migration_path w) = Inr src \<longrightarrow>
          submitted (events (run_script w)) = []
          \<and> ProbeSelect \<in> set (events (run_script w)))"
proof -
  assume h: "\<forall>f \<in> set (split_on semicolon src). \<not> is_statement (trim f)"
  have e: "split_statements src = []"
    unfolding split_statements_def filter_empty_conv
  proof
    fix t
    assume "t \<in> set (map trim (split_on semicolon src))"
    with h have "\<not> is_statement t" by auto
    then show "\<not> keep_stmt t" by (auto simp: is_statement_def keep_stmt_def)
  qed
  have l: "exec_loop rpc (split_statements src) 0 [] = ([], None)" for rpc
    by (simp add: e exec_loop_done)
  have "submitted (events (run_script w)) = [] \<and> ProbeSelect \<in> set (events (run_script w))"
    if c: "\<not> js_not (env_url w)" "\<not> js_not (env_key w)"
      and r: "read_file w (migration_path w) = Inr src" for w
    using run_script_loaded [OF c r l] run_submitted [of w] c r l
    by (simp add: Let_def split: reply.splits)
  with e l show ?thesis by blast
qed

text \<open>
  A file of a blank fragment, a comment and an empty fragment, run with both variables
  set.
\<close>

theorem c8_no_usable_statements_witness:
  "list_all (\<lambda>f. \<not> is_statement (trim f)) (split_on semicolon (asc '' ; -- c;''))
   \<and> split_statements (asc '' ; -- c;'') = []
   \<and> submitted (events (run_script
        (sample_world (Some (asc ''u'')) (Some (asc ''k'')) (Inr (asc '' ; -- c;''))
           (rejects []) accepts))) = []
   \<and> ProbeSelect \<in> set (events (run_script
        (sample_world (Some (asc ''u'')) (Some (asc ''k'')) (Inr (asc '' ; -- c;''))
           (rejects []) accepts)))"
proof -
  have h: "\<forall>f \<in> set (split_on semicolon (asc '' ; -- c;'')). \<not> is_statement (trim f)"
    by (simp add: is_statement_def splitter_defs)
  have w: "\<not> js_not (env_url (sample_world (Some (asc ''u'')) (Some (asc ''k''))
                (Inr (asc '' ; -- c;'')) (rejects []) accepts))
      \<and> \<not> js_not (env_key (sample_world (Some (asc ''u'')) (Some (asc ''k''))
                (Inr (asc '' ; -- c;'')) (rejects []) accepts))
      \<and> read_file (sample_world (Some (asc ''u'')) (Some (asc ''k''))
                (Inr (asc '' ; -- c;'')) (rejects []) accepts)
           (migration_path (sample_world (Some (asc ''u'')) (Some (asc ''k''))
                (Inr (asc '' ; -- c;'')) (rejects []) accepts)) = Inr (asc '' ; -- c;'')"
    by (simp add: run_defs asc_def)
  from c8_no_usable_statements [OF h] h w show ?thesis unfolding list_all_iff by blast
qed


section \<open>Claims about the outcome of a run\<close>

lemmas exec_loop_eval =
  exec_loop_done exec_loop_skip exec_loop_ok exec_loop_error exec_loop_raises

lemmas run_eval =
  run_script_def applyMigration_def Let_def run_defs splitter_defs exec_loop_eval
  completed_report_def manual_guidance_def catch_handler_def
  world_rejected_probe_ok_def world_probe_error_def world_probe_throws_def world_no_url_def
  world_no_key_def world_no_file_def

lemmas msg_defs =
  msg_starting_def msg_loaded_def msg_executing_all_def msg_executing_def
  msg_rpc_unavailable_def msg_attempting_def

lemma printed_append: "printed (xs @ ys) = printed xs @ printed ys"
  by (induction xs rule: printed.induct) auto

lemma copy_line_names_file:
  "sublist (asc ''migrations/001_create_scheduler_tables.sql'')
     ([0xD83D, 0xDCCE] @
        asc '' --- Copy the contents of migrations/001_create_scheduler_tables.sql ---'')"
proof -
  have "[0xD83D, 0xDCCE] @
        asc '' --- Copy the contents of migrations/001_create_scheduler_tables.sql ---''
      = ([0xD83D, 0xDCCE] @ asc '' --- Copy the contents of '') @
          asc ''migrations/001_create_scheduler_tables.sql'' @ asc '' ---''"
    by (simp add: asc_def)
  then show ?thesis by (simp only: sublist_appendI)
qed

lemma please_ensure_names_both:
  "sublist env_url_name msg_please_ensure \<and> sublist env_key_name msg_please_ensure"
proof
  have u: "msg_please_ensure = asc ''Please ensure '' @ env_url_name @
          asc '' and NEXT_PUBLIC_PUBLIC_API_KEY are set in your .env file''"
    by (simp add: asc_def msg_please_ensure_def env_url_name_def)
  show "sublist env_url_name msg_please_ensure"
    by (subst u) (rule sublist_appendI)
  have k: "msg_please_ensure = asc ''Please ensure NEXT_PUBLIC_SUPABASE_API and '' @ env_key_name @
          asc '' are set in your .env file''"
    by (simp add: asc_def msg_please_ensure_def env_key_name_def)
  show "sublist env_key_name msg_please_ensure"
    by (subst k) (rule sublist_appendI)
qed

text \<open>
  Claim C2, as the code has it. For every run that reaches the final read-only probe:
  when the probe returns without an error, the run prints the completion report, has
  the outcome Completed and ends with status 0; when the probe returns an error, the
  run prints the manual guidance, one line of which contains the text
  \<^verbatim>\<open>migrations/001_create_scheduler_tables.sql\<close>, has the outcome ManualFallback and ends
  with status 0; when the probe throws, the \<^verbatim>\<open>catch\<close> block runs, the outcome is
  Failed and the status is 1. The path in the guidance is the fixed text of the
  message, not the path the run resolved from the script's directory.
\<close>

theorem c2_probe_reply_decides_outcome:
  "ProbeSelect \<in> set (events (run_script w)) \<Longrightarrow>
   (probe_select w (submitted (events (run_script w))) = NoError \<longrightarrow>
      outcome (run_script w) = Completed
      \<and> exit_status (events (run_script w)) = 0
      \<and> (\<exists>before. events (run_script w) = before @ ProbeSelect #
            [ConsoleLog ([0x2705] @ asc '' Migration completed successfully!''),
             ConsoleLog [],
             ConsoleLog ([0xD83C, 0xDF89] @ asc '' Your Enrollmate scheduler database is ready!''),
             ConsoleLog ([0xD83D, 0xDCDA] @ asc '' Tables created:''),
             ConsoleLog (asc ''  - course_sections (with sample data)''),
             ConsoleLog (asc ''  - user_schedules''),
             ConsoleLog (asc ''  - schedule_preferences''),
             ConsoleLog [],
             ConsoleLog ([0xD83D, 0xDD12] @ asc '' Row Level Security (RLS) policies applied''),
             ConsoleLog ([0xD83D, 0xDCCA] @ asc '' Indexes created for optimal performance'')]))
   \<and> (probe_select w (submitted (events (run_script w))) = HasError \<longrightarrow>
      outcome (run_script w) = ManualFallback
      \<and> exit_status (events (run_script w)) = 0
      \<and> (\<exists>before. events (run_script w) = before @ ProbeSelect #
            [ConsoleLog ([0x26A0, 0xFE0F] @ asc ''  Direct SQL execution not available with anon key''),
             ConsoleLog ([0xD83D, 0xDCCB] @
               asc '' Please run the following SQL manually in your Supabase SQL Editor:''),
             ConsoleLog [],
             ConsoleLog ([0xD83D, 0xDCCE] @
               asc '' --- Copy the contents of migrations/001_create_scheduler_tables.sql ---''),
             ConsoleLog ([0xD83C, 0xDF10] @
               asc '' Go to: https://supabase.com/dashboard/project/hwgzlwocdofoticqvwqg/sql''),
             ConsoleLog ([0xD83D, 0xDCC4] @ asc '' Paste the SQL and run it''),
             ConsoleLog [],
             ConsoleLog ([0x2705] @ asc ('' Migration file created successfully at: '' @
               ''migrations/001_create_scheduler_tables.sql''))])
      \<and> list_ex (sublist (asc ''migrations/001_create_scheduler_tables.sql''))
            (printed (events (run_script w))))
   \<and> (\<forall>message. probe_select w (submitted (events (run_script w))) = Raises message \<longrightarrow>
      outcome (run_script w) = Failed
      \<and> exit_status (events (run_script w)) = 1
      \<and> (\<exists>before. events (run_script w) = before @ ProbeSelect #
            [ConsoleError ([0x274C] @ asc '' Migration failed:'' @ asc '' '' @ message),
             ConsoleError [],
             ConsoleError ([0xD83D, 0xDCCB] @ asc '' Manual steps needed:''),
             ConsoleError (asc (''1. Go to your Supabase dashboard: '' @
               ''https://supabase.com/dashboard/project/hwgzlwocdofoticqvwqg/sql'')),
             ConsoleError (asc ''2. Copy the contents of migrations/001_create_scheduler_tables.sql''),
             ConsoleError (asc ''3. Paste and execute the SQL in the SQL Editor''),
             ProcessExit 1]))"
proof -
  assume p: "ProbeSelect \<in> set (events (run_script w))"
  have c: "\<not> js_not (env_url w)" "\<not> js_not (env_key w)"
    using p run_script_missing [of w] by auto
  obtain sql where r: "read_file w (migration_path w) = Inr sql"
  proof (cases "read_file w (migration_path w)")
    case (Inl m)
    with p run_script_unreadable [OF c Inl] show ?thesis
      by (simp add: probe_catch_handler)
  next
    case (Inr sql)
    then show ?thesis by (rule that)
  qed
  define e2 where "e2 = fst (exec_loop (rpc_exec_sql w) (split_statements sql) 0 [])"
  define thrown where "thrown = snd (exec_loop (rpc_exec_sql w) (split_statements sql) 0 [])"
  define e3 where "e3 = [CreateClient (env_url w) (env_key w), ConsoleLog msg_starting,
      ReadFileSync (migration_path w), ConsoleLog msg_loaded,
      ConsoleLog (msg_executing_all (length (split_statements sql)))] @ e2 @
      [ConsoleLog msg_attempting]"
  have l: "exec_loop (rpc_exec_sql w) (split_statements sql) 0 [] = (e2, thrown)"
    by (simp add: e2_def thrown_def)
  have np: "ProbeSelect \<notin> set e2" unfolding e2_def by (rule exec_loop_no_probe)
  have s: "submitted (events (run_script w)) = submitted e2"
    using c r by (simp add: run_submitted e2_def)
  have t: "thrown = None"
  proof (cases thrown)
    case (Some m)
    with p np run_script_loaded [OF c r l] show ?thesis
      by (simp add: Let_def probe_catch_handler)
  qed
  have x: "exit_status (events (run_script w)) = (if outcome (run_script w) = Failed then 1 else 0)"
    if "outcome (run_script w) \<noteq> MissingConfiguration"
    using run_outcome_exit [of w] that by auto
  show ?thesis
  proof (intro conjI impI allI)
    assume "probe_select w (submitted (events (run_script w))) = NoError"
    with s t run_script_loaded [OF c r l]
    have e: "run_script w =
      \<lparr>events = e3 @ ProbeSelect # completed_report, outcome = Completed\<rparr>"
      by (simp add: Let_def e3_def)
    then show o: "outcome (run_script w) = Completed" by simp
    with x show "exit_status (events (run_script w)) = 0" by simp
    from e have g1: "events (run_script w) = e3 @ ProbeSelect #
            [ConsoleLog ([0x2705] @ asc '' Migration completed successfully!''),
             ConsoleLog [],
             ConsoleLog ([0xD83C, 0xDF89] @ asc '' Your Enrollmate scheduler database is ready!''),
             ConsoleLog ([0xD83D, 0xDCDA] @ asc '' Tables created:''),
             ConsoleLog (asc ''  - course_sections (with sample data)''),
             ConsoleLog (asc ''  - user_schedules''),
             ConsoleLog (asc ''  - schedule_preferences''),
             ConsoleLog [],
             ConsoleLog ([0xD83D, 0xDD12] @ asc '' Row Level Security (RLS) policies applied''),
             ConsoleLog ([0xD83D, 0xDCCA] @ asc '' Indexes created for optimal performance'')]"
      by (simp add: completed_report_def)
    show "\<exists>before. events (run_script w) = before @ ProbeSelect #
            [ConsoleLog ([0x2705] @ asc '' Migration completed successfully!''),
             ConsoleLog [],
             ConsoleLog ([0xD83C, 0xDF89] @ asc '' Your Enrollmate scheduler database is ready!''),
             ConsoleLog ([0xD83D, 0xDCDA] @ asc '' Tables created:''),
             ConsoleLog (asc ''  - course_sections (with sample data)''),
             ConsoleLog (asc ''  - user_schedules''),
             ConsoleLog (asc ''  - schedule_preferences''),
             ConsoleLog [],
             ConsoleLog ([0xD83D, 0xDD12] @ asc '' Row Level Security (RLS) policies applied''),
             ConsoleLog ([0xD83D, 0xDCCA] @ asc '' Indexes created for optimal performance'')]"
      by (rule exI [of _ e3]) (rule g1)
  next
    assume "probe_select w (submitted (events (run_script w))) = HasError"
    with s t run_script_loaded [OF c r l]
    have e: "run_script w =
      \<lparr>events = e3 @ ProbeSelect # manual_guidance, outcome = ManualFallback\<rparr>"
      by (simp add: Let_def e3_def)
    then show o: "outcome (run_script w) = ManualFallback" by simp
    with x show "exit_status (events (run_script w)) = 0" by simp
    from e have g2: "events (run_script w) = e3 @ ProbeSelect #
            [ConsoleLog ([0x26A0, 0xFE0F] @ asc ''  Direct SQL execution not available with anon key''),
             ConsoleLog ([0xD83D, 0xDCCB] @
               asc '' Please run the following SQL manually in your Supabase SQL Editor:''),
             ConsoleLog [],
             ConsoleLog ([0xD83D, 0xDCCE] @
               asc '' --- Copy the contents of migrations/001_create_scheduler_tables.sql ---''),
             ConsoleLog ([0xD83C, 0xDF10] @
               asc '' Go to: https://supabase.com/dashboard/project/hwgzlwocdofoticqvwqg/sql''),
             ConsoleLog ([0xD83D, 0xDCC4] @ asc '' Paste the SQL and run it''),
             ConsoleLog [],
             ConsoleLog ([0x2705] @ asc ('' Migration file created successfully at: '' @
               ''migrations/001_create_scheduler_tables.sql''))]"
      by (simp add: manual_guidance_def)
    show "\<exists>before. events (run_script w) = before @ ProbeSelect #
            [ConsoleLog ([0x26A0, 0xFE0F] @ asc ''  Direct SQL execution not available with anon key''),
             ConsoleLog ([0xD83D, 0xDCCB] @
               asc '' Please run the following SQL manually in your Supabase SQL Editor:''),
             ConsoleLog [],
             ConsoleLog ([0xD83D, 0xDCCE] @
               asc '' --- Copy the contents of migrations/001_create_scheduler_tables.sql ---''),
             ConsoleLog ([0xD83C, 0xDF10] @
               asc '' Go to: https://supabase.com/dashboard/project/hwgzlwocdofoticqvwqg/sql''),
             ConsoleLog ([0xD83D, 0xDCC4] @ asc '' Paste the SQL and run it''),
             ConsoleLog [],
             ConsoleLog ([0x2705] @ asc ('' Migration file created successfully at: '' @
               ''migrations/001_create_scheduler_tables.sql''))]"
      by (rule exI [of _ e3]) (rule g2)
    have "[0xD83D, 0xDCCE] @
        asc '' --- Copy the contents of migrations/001_create_scheduler_tables.sql ---''
        \<in> set (printed (events (run_script w)))"
      unfolding g2 by (simp add: printed_append)
    with copy_line_names_file
    show "list_ex (sublist (asc ''migrations/001_create_scheduler_tables.sql''))
            (printed (events (run_script w)))"
      unfolding list_ex_iff by blast
  next
    fix message
    assume "probe_select w (submitted (events (run_script w))) = Raises message"
    with s t run_script_loaded [OF c r l]
    have e: "run_script w =
      \<lparr>events = e3 @ ProbeSelect # catch_handler message, outcome = Failed\<rparr>"
      by (simp add: Let_def e3_def)
    then show o: "outcome (run_script w) = Failed" by simp
    with x show "exit_status (events (run_script w)) = 1" by simp
    from e have g3: "events (run_script w) = e3 @ ProbeSelect #
            [ConsoleError ([0x274C] @ asc '' Migration failed:'' @ asc '' '' @ message),
             ConsoleError [],
             ConsoleError ([0xD83D, 0xDCCB] @ asc '' Manual steps needed:''),
             ConsoleError (asc (''1. Go to your Supabase dashboard: '' @
               ''https://supabase.com/dashboard/project/hwgzlwocdofoticqvwqg/sql'')),
             ConsoleError (asc ''2. Copy the contents of migrations/001_create_scheduler_tables.sql''),
             ConsoleError (asc ''3. Paste and execute the SQL in the SQL Editor''),
             ProcessExit 1]"
      by (simp add: catch_handler_def)
    show "\<exists>before. events (run_script w) = before @ ProbeSelect #
            [ConsoleError ([0x274C] @ asc '' Migration failed:'' @ asc '' '' @ message),
             ConsoleError [],
             ConsoleError ([0xD83D, 0xDCCB] @ asc '' Manual steps needed:''),
             ConsoleError (asc (''1. Go to your Supabase dashboard: '' @
               ''https://supabase.com/dashboard/project/hwgzlwocdofoticqvwqg/sql'')),
             ConsoleError (asc ''2. Copy the contents of migrations/001_create_scheduler_tables.sql''),
             ConsoleError (asc ''3. Paste and execute the SQL in the SQL Editor''),
             ProcessExit 1]"
      by (rule exI [of _ e3]) (rule g3)
  qed
qed

text \<open>
  A run whose probe succeeds, a run whose probe returns an error and a run whose probe
  throws.
\<close>

theorem c2_probe_reply_decides_outcome_witness:
  "ProbeSelect \<in> set (events (run_script world_rejected_probe_ok))
   \<and> probe_select world_rejected_probe_ok
        (submitted (events (run_script world_rejected_probe_ok))) = NoError
   \<and> outcome (run_script world_rejected_probe_ok) = Completed
   \<and> ProbeSelect \<in> set (events (run_script world_probe_error))
   \<and> probe_select world_probe_error
        (submitted (events (run_script world_probe_error))) = HasError
   \<and> outcome (run_script world_probe_error) = ManualFallback
   \<and> list_ex (sublist (asc ''migrations/001_create_scheduler_tables.sql''))
         (printed (events (run_script world_probe_error)))
   \<and> ProbeSelect \<in> set (events (run_script world_probe_throws))
   \<and> probe_select world_probe_throws
        (submitted (events (run_script world_probe_throws))) = Raises (asc ''fetch failed'')
   \<and> outcome (run_script world_probe_throws) = Failed
   \<and> exit_status (events (run_script world_probe_throws)) = 1"
proof -
  have a: "ProbeSelect \<in> set (events (run_script world_rejected_probe_ok))"
    by (simp add: run_eval)
  have b: "probe_select world_rejected_probe_ok
        (submitted (events (run_script world_rejected_probe_ok))) = NoError"
    by (simp add: world_rejected_probe_ok_def run_defs)
  have c: "ProbeSelect \<in> set (events (run_script world_probe_error))"
    by (simp add: run_eval)
  have d: "probe_select world_probe_error
        (submitted (events (run_script world_probe_error))) = HasError"
    by (simp add: world_probe_error_def run_defs)
  have e: "ProbeSelect \<in> set (events (run_script world_probe_throws))"
    by (simp add: run_eval)
  have f: "probe_select world_probe_throws
        (submitted (events (run_script world_probe_throws))) = Raises (asc ''fetch failed'')"
    by (simp add: world_probe_throws_def run_defs)
  from c2_probe_reply_decides_outcome [OF a] c2_probe_reply_decides_outcome [OF c]
    c2_probe_reply_decides_outcome [OF e] a b c d e f
  show ?thesis by blast
qed

text \<open>
  Claim C2 as the specification words it fails in two respects. A probe that throws
  is a probe that fails in a run that reaches it, and the outcome is then Failed with
  status 1, not ManualFallback. And in a run that ends in ManualFallback after reading
  \<^verbatim>\<open>/app/migrations/001_create_scheduler_tables.sql\<close>, no printed line contains that
  path.
\<close>

theorem c2_probe_failure_counterexample:
  "ProbeSelect \<in> set (events (run_script world_probe_throws))
   \<and> probe_select world_probe_throws
        (submitted (events (run_script world_probe_throws))) \<noteq> NoError
   \<and> outcome (run_script world_probe_throws) \<noteq> ManualFallback
   \<and> outcome (run_script world_probe_throws) = Failed
   \<and> exit_status (events (run_script world_probe_throws)) = 1
   \<and> outcome (run_script world_probe_error) = ManualFallback
   \<and> migration_path world_probe_error = asc ''/app/migrations/001_create_scheduler_tables.sql''
   \<and> ReadFileSync (migration_path world_probe_error)
         \<in> set (events (run_script world_probe_error))
   \<and> \<not> list_ex (sublist (migration_path world_probe_error))
         (printed (events (run_script world_probe_error)))"
proof -
  have p: "migration_path world_probe_error = asc ''/app/migrations/001_create_scheduler_tables.sql''"
    by (simp add: world_probe_error_def sample_world_def migration_path_def
        migration_file_name_def asc_def)
  have "\<not> list_ex (sublist (asc ''/app/migrations/001_create_scheduler_tables.sql''))
         (printed (events (run_script world_probe_error)))"
    by (simp add: run_eval msg_defs dec.simps sublist_Cons_right)
  moreover have "ReadFileSync (asc ''/app/migrations/001_create_scheduler_tables.sql'')
         \<in> set (events (run_script world_probe_error))"
    by (simp add: run_eval migration_file_name_def)
  ultimately show ?thesis
    unfolding p by (simp add: run_eval)
qed

text \<open>
  Claim C4. When either required configuration value is missing (the variable is
  undefined or empty, which is what the check of line 22 tests), the run does not read
  the migration file, builds no client and makes no remote call, prints an error line
  that names both variables, and exits with a non-zero status.
\<close>

theorem c4_missing_configuration_aborts:
  "js_not (env_url w) \<or> js_not (env_key w) \<Longrightarrow>
   (\<forall>path. ReadFileSync path \<notin> set (events (run_script w)))
   \<and> (\<forall>url key. CreateClient url key \<notin> set (events (run_script w)))
   \<and> (\<forall>sql. RpcExecSql sql \<notin> set (events (run_script w)))
   \<and> ProbeSelect \<notin> set (events (run_script w))
   \<and> (\<exists>line. ConsoleError line \<in> set (events (run_script w))
              \<and> sublist env_url_name line \<and> sublist env_key_name line)
   \<and> exit_status (events (run_script w)) \<noteq> 0"
proof -
  assume "js_not (env_url w) \<or> js_not (env_key w)"
  then have e: "events (run_script w) =
      [ConsoleError msg_missing_env, ConsoleError msg_please_ensure, ProcessExit 1]"
    by (simp add: run_script_missing)
  have "ConsoleError msg_please_ensure \<in> set (events (run_script w))"
    by (simp add: e)
  with please_ensure_names_both
  have "\<exists>line. ConsoleError line \<in> set (events (run_script w))
              \<and> sublist env_url_name line \<and> sublist env_key_name line"
    by blast
  then show ?thesis by (simp add: e)
qed

text \<open>
  A run without the endpoint address and a run without the access credential.
\<close>

theorem c4_missing_configuration_aborts_witness:
  "env_url world_no_url = None \<and> env_key world_no_key = None
   \<and> events (run_script world_no_url) =
       [ConsoleError msg_missing_env, ConsoleError msg_please_ensure, ProcessExit 1]
   \<and> exit_status (events (run_script world_no_url)) \<noteq> 0
   \<and> exit_status (events (run_script world_no_key)) \<noteq> 0"
proof -
  have u: "env_url world_no_url = None" and k: "env_key world_no_key = None"
    by (simp_all add: world_no_url_def world_no_key_def sample_world_def)
  then have "js_not (env_url world_no_url) \<or> js_not (env_key world_no_url)"
    and "js_not (env_url world_no_key) \<or> js_not (env_key world_no_key)"
    by (simp_all add: js_not_def)
  from c4_missing_configuration_aborts [OF this(1)] c4_missing_configuration_aborts [OF this(2)]
  have "exit_status (events (run_script world_no_url)) \<noteq> 0"
    and "exit_status (events (run_script world_no_key)) \<noteq> 0"
    by blast+
  moreover have "events (run_script world_no_url) =
       [ConsoleError msg_missing_env, ConsoleError msg_please_ensure, ProcessExit 1]"
    using u by (simp add: run_script_def js_not_def)
  ultimately show ?thesis using u k by simp
qed


text \<open>
  Claim C5. The exit status is 0 for every run whose outcome is Completed,
  ManualFallback or PartialFallback, and non-zero for every run with a missing
  configuration value and for every run in which a call of the \<^verbatim>\<open>try\<close> block throws
  (outcome Failed), as reading an unreadable migration file does. No run of the script
  has the outcome PartialFallback (\<open>never_partial_fallback\<close>), so that part holds of no
  run.
\<close>

theorem c5_exit_status:
  "(outcome (run_script w) = Completed \<or> outcome (run_script w) = ManualFallback
      \<or> outcome (run_script w) = PartialFallback \<longrightarrow>
        exit_status (events (run_script w)) = 0)
   \<and> (js_not (env_url w) \<or> js_not (env_key w) \<longrightarrow>
        exit_status (events (run_script w)) \<noteq> 0)
   \<and> (\<not> js_not (env_url w) \<and> \<not> js_not (env_key w) \<and> try_block_throws w \<longrightarrow>
        outcome (run_script w) = Failed \<and> exit_status (events (run_script w)) \<noteq> 0)
   \<and> (isl (read_file w (migration_path w)) \<longrightarrow> try_block_throws w)"
proof (intro conjI impI)
  assume "outcome (run_script w) = Completed \<or> outcome (run_script w) = ManualFallback
      \<or> outcome (run_script w) = PartialFallback"
  with run_outcome_exit [of w] show "exit_status (events (run_script w)) = 0" by auto
next
  assume "js_not (env_url w) \<or> js_not (env_key w)"
  then show "exit_status (events (run_script w)) \<noteq> 0" by (simp add: run_script_missing)
next
  assume "\<not> js_not (env_url w) \<and> \<not> js_not (env_key w) \<and> try_block_throws w"
  then show f: "outcome (run_script w) = Failed" by (simp add: failed_iff_throws)
  with run_outcome_exit [of w] show "exit_status (events (run_script w)) \<noteq> 0" by auto
next
  assume "isl (read_file w (migration_path w))"
  then show "try_block_throws w" by (auto simp: isl_def try_block_throws_def)
qed

text \<open>
  A completed run, a manual fallback, a run without the endpoint address and a run
  whose migration file cannot be read.
\<close>

theorem c5_exit_status_witness:
  "outcome (run_script world_rejected_probe_ok) = Completed
   \<and> exit_status (events (run_script world_rejected_probe_ok)) = 0
   \<and> outcome (run_script world_probe_error) = ManualFallback
   \<and> exit_status (events (run_script world_probe_error)) = 0
   \<and> js_not (env_url world_no_url)
   \<and> exit_status (events (run_script world_no_url)) \<noteq> 0
   \<and> isl (read_file world_no_file (migration_path world_no_file))
   \<and> try_block_throws world_no_file
   \<and> outcome (run_script world_no_file) = Failed
   \<and> exit_status (events (run_script world_no_file)) \<noteq> 0"
proof -
  have a: "outcome (run_script world_rejected_probe_ok) = Completed"
    by (simp add: run_eval)
  have b: "outcome (run_script world_probe_error) = ManualFallback"
    by (simp add: run_eval)
  have c: "js_not (env_url world_no_url)"
    by (simp add: world_no_url_def run_defs)
  have d: "\<not> js_not (env_url world_no_file) \<and> \<not> js_not (env_key world_no_file)
        \<and> isl (read_file world_no_file (migration_path world_no_file))"
    by (simp add: world_no_file_def run_defs asc_def)
  from c5_exit_status [of world_rejected_probe_ok] c5_exit_status [of world_probe_error]
    c5_exit_status [of world_no_url] c5_exit_status [of world_no_file] a b c d
  show ?thesis by blast
qed


end
